theory Spec2Isabelle
  imports Complex_Main "HOL-Library.Multiset"
begin

section \<open>Numbers, vectors and bodies\<close>

text \<open>
  The physics core of the simulator (js/physics/motion.js, which also holds the
  PhysicsEngine class, and js/physics/forces.js) computes on JavaScript numbers.
  They are modelled as \<^typ>\<open>real\<close>: arithmetic is exact, rounding, overflow,
  infinities and NaN are not modelled. \<open>Math.sqrt\<close>, \<open>Math.cos\<close> and \<open>Math.sin\<close>
  are \<^const>\<open>sqrt\<close>, \<^const>\<open>cos\<close> and \<^const>\<open>sin\<close>.

  A vector is the object literal \<open>{x, y}\<close>.
\<close>

record vec =
  vec_x :: real
  vec_y :: real

text \<open>
  The object built by \<open>PhysicsEngine.createObject\<close>. The field \<open>id\<close> is
  \<open>obj_id\<close> and the field \<open>type\<close> is \<open>obj_type\<close> here. The simulators add
  a \<open>label\<close> property after creation; it is \<open>None\<close> until then.
\<close>

record body =
  obj_id :: string
  position :: vec
  velocity :: vec
  acceleration :: vec
  mass :: real
  radius :: real
  color :: string
  obj_type :: string
  label :: "string option"

text \<open>
  The state of a \<open>PhysicsEngine\<close>. \<open>objects\<close> is the \<open>Map\<close> from ids to
  bodies. A value of the map stands for the object the id refers to: the only
  \<open>objects.set\<close> of the class is in \<open>createObject\<close>, which stores a freshly built
  object with freshly copied vectors, so two different ids never share a body
  or a vector. The \<open>forces\<close> map of the engine is never read or written by the
  methods modelled here and is left out.
\<close>

record physics_engine =
  gravity :: real
  drag :: real
  timeStep :: real
  isRunning :: bool
  objects :: "string \<rightharpoonup> body"

text \<open>The constructor of \<open>PhysicsEngine\<close>.\<close>

definition new_PhysicsEngine :: physics_engine where
  "new_PhysicsEngine =
     \<lparr>gravity = 9.81, drag = 0.01, timeStep = 1 / 60, isRunning = False,
      objects = Map.empty\<rparr>"

section \<open>Third law: the collision resolver\<close>

text \<open>\<open>PhysicsEngine.calculateMomentum\<close>: the scalar \<open>mass * speed\<close>.\<close>

definition calculateMomentum :: "body \<Rightarrow> real" where
  "calculateMomentum object =
     (let speed = sqrt ((vec_x (velocity object))\<^sup>2 + (vec_y (velocity object))\<^sup>2)
      in mass object * speed)"

text \<open>The object returned by \<open>applyThirdLaw\<close> when it resolves a collision.\<close>

record collision_result =
  forceA :: vec
  forceB :: vec
  momentum :: real

text \<open>
  \<open>PhysicsEngine.applyThirdLaw(objectAId, objectBId, collisionType = 'elastic')\<close>.
  The last argument is \<open>None\<close> when the caller omits it. The method returns
  \<open>undefined\<close> (here \<open>None\<close>) from each of its early returns, before any write.
  The two bodies are the same object only when the two ids are equal, and then
  \<open>distance\<close> is 0 and the method returns before writing; so the writes to
  \<open>objectA\<close> and \<open>objectB\<close> below touch different objects.
\<close>

definition applyThirdLaw ::
  "physics_engine \<Rightarrow> string \<Rightarrow> string \<Rightarrow> string option
     \<Rightarrow> physics_engine \<times> collision_result option" where
  "applyThirdLaw eng objectAId objectBId collisionTypeArg =
     (let collisionType = (case collisionTypeArg of None \<Rightarrow> ''elastic'' | Some t \<Rightarrow> t) in
      case objects eng objectAId of
        None \<Rightarrow> (eng, None)
      | Some objectA \<Rightarrow>
     (case objects eng objectBId of
        None \<Rightarrow> (eng, None)
      | Some objectB \<Rightarrow>
        let dx = vec_x (position objectB) - vec_x (position objectA);
            dy = vec_y (position objectB) - vec_y (position objectA);
            distance = sqrt (dx * dx + dy * dy)
        in if distance = 0 then (eng, None)
        else
        let nx = dx / distance;
            ny = dy / distance;
            relativeVelocityX = vec_x (velocity objectB) - vec_x (velocity objectA);
            relativeVelocityY = vec_y (velocity objectB) - vec_y (velocity objectA);
            relativeSpeed = relativeVelocityX * nx + relativeVelocityY * ny
        in if relativeSpeed > 0 then (eng, None)
        else
        let restitution =
              (if collisionType = ''inelastic'' then 0.5
               else if collisionType = ''perfectly-inelastic'' then 0.0
               else 1.0);
            impulse = - (1 + restitution) * relativeSpeed /
                        (1 / mass objectA + 1 / mass objectB);
            impulseA = \<lparr>vec_x = impulse * nx, vec_y = impulse * ny\<rparr>;
            impulseB = \<lparr>vec_x = - impulse * nx, vec_y = - impulse * ny\<rparr>;
            velocityA = \<lparr>vec_x = vec_x (velocity objectA) + vec_x impulseA / mass objectA,
                         vec_y = vec_y (velocity objectA) + vec_y impulseA / mass objectA\<rparr>;
            velocityB = \<lparr>vec_x = vec_x (velocity objectB) + vec_x impulseB / mass objectB,
                         vec_y = vec_y (velocity objectB) + vec_y impulseB / mass objectB\<rparr>;
            overlap = (radius objectA + radius objectB) - distance;
            separationX = nx * overlap * 0.5;
            separationY = ny * overlap * 0.5;
            positionA =
              (if overlap > 0
               then \<lparr>vec_x = vec_x (position objectA) - separationX,
                      vec_y = vec_y (position objectA) - separationY\<rparr>
               else position objectA);
            positionB =
              (if overlap > 0
               then \<lparr>vec_x = vec_x (position objectB) + separationX,
                      vec_y = vec_y (position objectB) + separationY\<rparr>
               else position objectB);
            objectA' = objectA\<lparr>velocity := velocityA, position := positionA\<rparr>;
            objectB' = objectB\<lparr>velocity := velocityB, position := positionB\<rparr>
        in (eng\<lparr>objects := (objects eng)(objectAId \<mapsto> objectA', objectBId \<mapsto> objectB')\<rparr>,
            Some \<lparr>forceA = impulseA, forceB = impulseB,
                  momentum = calculateMomentum objectA' + calculateMomentum objectB'\<rparr>)))"

subsection \<open>The local quantities of \<open>applyThirdLaw\<close>, named\<close>

text \<open>
  The theorems speak about the separation of the centres, the unit normal and
  the relative speed along it. These are the local constants \<open>distance\<close>,
  \<open>nx\<close>, \<open>ny\<close> and \<open>relativeSpeed\<close> of the method, as functions of the two bodies.
\<close>

definition centre_distance :: "body \<Rightarrow> body \<Rightarrow> real" where
  "centre_distance objectA objectB =
     sqrt ((vec_x (position objectB) - vec_x (position objectA)) *
           (vec_x (position objectB) - vec_x (position objectA)) +
           (vec_y (position objectB) - vec_y (position objectA)) *
           (vec_y (position objectB) - vec_y (position objectA)))"

definition normal_x :: "body \<Rightarrow> body \<Rightarrow> real" where
  "normal_x objectA objectB =
     (vec_x (position objectB) - vec_x (position objectA)) / centre_distance objectA objectB"

definition normal_y :: "body \<Rightarrow> body \<Rightarrow> real" where
  "normal_y objectA objectB =
     (vec_y (position objectB) - vec_y (position objectA)) / centre_distance objectA objectB"

text \<open>
  The velocity of \<open>objectB\<close> relative to \<open>objectA\<close>, along the normal that the
  positions of \<open>p\<close> and \<open>q\<close> define. With \<open>p = objectA\<close> and \<open>q = objectB\<close> this is
  \<open>relativeSpeed\<close>.
\<close>

definition relative_speed_along :: "body \<Rightarrow> body \<Rightarrow> body \<Rightarrow> body \<Rightarrow> real" where
  "relative_speed_along p q objectA objectB =
     (vec_x (velocity objectB) - vec_x (velocity objectA)) * normal_x p q +
     (vec_y (velocity objectB) - vec_y (velocity objectA)) * normal_y p q"

definition relativeSpeed :: "body \<Rightarrow> body \<Rightarrow> real" where
  "relativeSpeed objectA objectB = relative_speed_along objectA objectB objectA objectB"

text \<open>
  The local constants \<open>restitution\<close> and \<open>impulse\<close>. The restitution starts at
  1.0 and is replaced for the two other known types only.
\<close>

definition restitution_of :: "string option \<Rightarrow> real" where
  "restitution_of collisionTypeArg =
     (let collisionType = (case collisionTypeArg of None \<Rightarrow> ''elastic'' | Some t \<Rightarrow> t)
      in if collisionType = ''inelastic'' then 0.5
         else if collisionType = ''perfectly-inelastic'' then 0.0
         else 1.0)"

definition impulse_of :: "body \<Rightarrow> body \<Rightarrow> string option \<Rightarrow> real" where
  "impulse_of objectA objectB collisionTypeArg =
     - (1 + restitution_of collisionTypeArg) * relativeSpeed objectA objectB /
       (1 / mass objectA + 1 / mass objectB)"

text \<open>
  \<open>PhysicsEngine.checkCollision\<close>: the circles overlap. It returns \<open>false\<close> when
  an id is unknown.
\<close>

definition checkCollision :: "physics_engine \<Rightarrow> string \<Rightarrow> string \<Rightarrow> bool" where
  "checkCollision eng objectAId objectBId =
     (case objects eng objectAId of
        None \<Rightarrow> False
      | Some objectA \<Rightarrow>
     (case objects eng objectBId of
        None \<Rightarrow> False
      | Some objectB \<Rightarrow>
        let dx = vec_x (position objectB) - vec_x (position objectA);
            dy = vec_y (position objectB) - vec_y (position objectA);
            distance = sqrt (dx * dx + dy * dy)
        in distance < radius objectA + radius objectB))"

text \<open>
  The kinetic energy of the pair counted along the normal that the positions
  of \<open>p\<close> and \<open>q\<close> define: each body contributes
  \<open>0.5 * mass * (velocity . n)\<^sup>2\<close>. The source has no function for it
  (\<open>calculateKineticEnergy\<close> uses the whole speed); it is the quantity the energy
  law of the collision speaks about.
\<close>

definition normal_kinetic_energy :: "body \<Rightarrow> body \<Rightarrow> body \<Rightarrow> body \<Rightarrow> real" where
  "normal_kinetic_energy p q objectA objectB =
     0.5 * mass objectA *
       (vec_x (velocity objectA) * normal_x p q + vec_y (velocity objectA) * normal_y p q)\<^sup>2 +
     0.5 * mass objectB *
       (vec_x (velocity objectB) * normal_x p q + vec_y (velocity objectB) * normal_y p q)\<^sup>2"

section \<open>Creating bodies\<close>

text \<open>
  \<open>PhysicsEngine.createObject(id, position, velocity = {x: 0, y: 0}, mass = 1,
  radius = 10)\<close>. An omitted argument is \<open>None\<close>. The spreads \<open>{...position}\<close>
  and \<open>{...velocity}\<close> copy the vectors; on values a copy is the value itself,
  and the store model below shows what the copies mean for sharing.
\<close>

definition createObject ::
  "physics_engine \<Rightarrow> string \<Rightarrow> vec \<Rightarrow> vec option \<Rightarrow> real option \<Rightarrow> real option
     \<Rightarrow> physics_engine \<times> body" where
  "createObject eng ident positionArg velocityArg massArg radiusArg =
     (let velocityV = (case velocityArg of None \<Rightarrow> \<lparr>vec_x = 0, vec_y = 0\<rparr> | Some v \<Rightarrow> v);
          massV = (case massArg of None \<Rightarrow> 1 | Some m \<Rightarrow> m);
          radiusV = (case radiusArg of None \<Rightarrow> 10 | Some r \<Rightarrow> r);
          object = \<lparr>obj_id = ident,
                    position = positionArg,
                    velocity = velocityV,
                    acceleration = \<lparr>vec_x = 0, vec_y = 0\<rparr>,
                    mass = massV,
                    radius = radiusV,
                    color = ''#3b82f6'',
                    obj_type = ''ball'',
                    label = None\<rparr>
      in (eng\<lparr>objects := (objects eng)(ident \<mapsto> object)\<rparr>, object))"

text \<open>
  An engine holding two bodies \<open>a\<close> and \<open>b\<close>, built by two calls of
  \<open>createObject\<close> with the default radius; the theorems are instantiated on it.
\<close>

definition two_bodies :: "vec \<Rightarrow> vec \<Rightarrow> real \<Rightarrow> vec \<Rightarrow> vec \<Rightarrow> real \<Rightarrow> physics_engine" where
  "two_bodies pa va ma pb vb mb =
     fst (createObject (fst (createObject new_PhysicsEngine ''a'' pa (Some va) (Some ma) None))
            ''b'' pb (Some vb) (Some mb) None)"

subsection \<open>The same method on a store of vector objects\<close>

text \<open>
  To speak about sharing, the \<open>{x, y}\<close> objects live in a store: a list of
  vectors, a reference being an index into it. An object literal or a spread
  allocates a new cell at the end of the store. A body then holds references
  to its three vectors.
\<close>

type_synonym ref = nat
type_synonym store = "vec list"

definition alloc :: "store \<Rightarrow> vec \<Rightarrow> store \<times> ref" where
  "alloc h v = (h @ [v], length h)"

record body_refs =
  ref_id :: string
  position_ref :: ref
  velocity_ref :: ref
  acceleration_ref :: ref
  ref_mass :: real
  ref_radius :: real
  ref_color :: string
  ref_type :: string

text \<open>
  \<open>createObject\<close> with its vector arguments passed by reference. The default
  \<open>{x: 0, y: 0}\<close> of \<open>velocity\<close> is a literal evaluated at the call, so it is
  allocated when the argument is omitted; then the object literal is evaluated
  field by field: the copy of \<open>position\<close>, the copy of \<open>velocity\<close>, the new
  \<open>acceleration\<close>.
\<close>

definition createObject_store ::
  "store \<Rightarrow> string \<Rightarrow> ref \<Rightarrow> ref option \<Rightarrow> real option \<Rightarrow> real option
     \<Rightarrow> store \<times> body_refs" where
  "createObject_store h ident positionArg velocityArg massArg radiusArg =
     (let (h0, velocityR) =
            (case velocityArg of
               None \<Rightarrow> alloc h \<lparr>vec_x = 0, vec_y = 0\<rparr>
             | Some r \<Rightarrow> (h, r));
          massV = (case massArg of None \<Rightarrow> 1 | Some m \<Rightarrow> m);
          radiusV = (case radiusArg of None \<Rightarrow> 10 | Some r \<Rightarrow> r);
          (h1, positionC) = alloc h0 (h0 ! positionArg);
          (h2, velocityC) = alloc h1 (h1 ! velocityR);
          (h3, accelerationC) = alloc h2 \<lparr>vec_x = 0, vec_y = 0\<rparr>
      in (h3, \<lparr>ref_id = ident,
                position_ref = positionC,
                velocity_ref = velocityC,
                acceleration_ref = accelerationC,
                ref_mass = massV,
                ref_radius = radiusV,
                ref_color = ''#3b82f6'',
                ref_type = ''ball''\<rparr>))"

text \<open>Reading a body's vectors out of the store gives the body as a value.\<close>

definition body_of :: "store \<Rightarrow> body_refs \<Rightarrow> body" where
  "body_of h b =
     \<lparr>obj_id = ref_id b,
      position = h ! position_ref b,
      velocity = h ! velocity_ref b,
      acceleration = h ! acceleration_ref b,
      mass = ref_mass b,
      radius = ref_radius b,
      color = ref_color b,
      obj_type = ref_type b,
      label = None\<rparr>"

subsection \<open>The pair of the third-law simulator\<close>

text \<open>The \<open>config\<close> object of \<open>ThirdLawSimulator\<close> and its initial value.\<close>

record third_law_config =
  objectAMass :: real
  objectBMass :: real
  collisionType :: string
  objectRadius :: real

definition default_third_law_config :: third_law_config where
  "default_third_law_config =
     \<lparr>objectAMass = 1, objectBMass = 2, collisionType = ''elastic'', objectRadius = 20\<rparr>"

text \<open>
  \<open>ThirdLawSimulator.createObjects\<close>: two calls of \<open>createObject\<close>, each followed
  by writes to \<open>color\<close>, \<open>type\<close> and \<open>label\<close> of the object just stored.
\<close>

definition createObjects :: "physics_engine \<Rightarrow> third_law_config \<Rightarrow> physics_engine" where
  "createObjects eng config =
     (let (eng1, objectA) =
            createObject eng ''object-a'' \<lparr>vec_x = 200, vec_y = 200\<rparr>
              (Some \<lparr>vec_x = 5, vec_y = 0\<rparr>) (Some (objectAMass config))
              (Some (objectRadius config));
          eng2 = eng1\<lparr>objects := (objects eng1)(''object-a'' \<mapsto>
                   objectA\<lparr>color := ''#f59e0b'', obj_type := ''ball'', label := Some ''A''\<rparr>)\<rparr>;
          (eng3, objectB) =
            createObject eng2 ''object-b'' \<lparr>vec_x = 500, vec_y = 200\<rparr>
              (Some \<lparr>vec_x = - 3, vec_y = 0\<rparr>) (Some (objectBMass config))
              (Some (objectRadius config))
      in eng3\<lparr>objects := (objects eng3)(''object-b'' \<mapsto>
                   objectB\<lparr>color := ''#8b5cf6'', obj_type := ''ball'', label := Some ''B''\<rparr>)\<rparr>)"

text \<open>
  The pair at a moment of contact: the bodies of \<open>createObjects\<close> with their
  initial velocities, moved along the x axis to the abscissas \<open>xa\<close> and \<open>xb\<close>.
\<close>

definition pair_at :: "physics_engine \<Rightarrow> real \<Rightarrow> real \<Rightarrow> physics_engine" where
  "pair_at eng xa xb =
     eng\<lparr>objects := (\<lambda>i.
       map_option
         (\<lambda>object.
            if i = ''object-a'' then object\<lparr>position := (position object)\<lparr>vec_x := xa\<rparr>\<rparr>
            else if i = ''object-b'' then object\<lparr>position := (position object)\<lparr>vec_x := xb\<rparr>\<rparr>
            else object)
         (objects eng i))\<rparr>"

section \<open>Second law: the integration steps\<close>

text \<open>The state of a \<open>MotionSystem\<close> and its constructor.\<close>

record motion_system =
  ms_timeStep :: real
  timeScale :: real
  isPaused :: bool
  lastTime :: real
  accumulator :: real

definition new_MotionSystem :: motion_system where
  "new_MotionSystem =
     \<lparr>ms_timeStep = 1 / 60, timeScale = 1.0, isPaused = False, lastTime = 0,
      accumulator = 0\<rparr>"

text \<open>
  \<open>MotionSystem.integrateEuler(object, netForce, deltaTime)\<close>: velocity first,
  then position with the velocity just written. It returns the acceleration;
  the model returns the updated body with it.
\<close>

definition integrateEuler :: "motion_system \<Rightarrow> body \<Rightarrow> vec \<Rightarrow> real \<Rightarrow> body \<times> vec" where
  "integrateEuler ms object netForce deltaTime =
     (let dt = deltaTime * timeScale ms;
          accelerationV = \<lparr>vec_x = vec_x netForce / mass object,
                           vec_y = vec_y netForce / mass object\<rparr>;
          object1 = object\<lparr>velocity :=
                      \<lparr>vec_x = vec_x (velocity object) + vec_x accelerationV * dt,
                       vec_y = vec_y (velocity object) + vec_y accelerationV * dt\<rparr>\<rparr>;
          object2 = object1\<lparr>position :=
                      \<lparr>vec_x = vec_x (position object1) + vec_x (velocity object1) * dt,
                       vec_y = vec_y (position object1) + vec_y (velocity object1) * dt\<rparr>\<rparr>;
          object3 = object2\<lparr>acceleration := accelerationV\<rparr>
      in (object3, accelerationV))"

text \<open>
  \<open>MotionSystem.integrateMotion(object, netForce, deltaTime)\<close>: position first,
  from the old velocity and half the acceleration, then velocity. It returns
  the acceleration and the displacement of the step.
\<close>

record motion_result =
  res_acceleration :: vec
  displacement :: vec

definition integrateMotion ::
  "motion_system \<Rightarrow> body \<Rightarrow> vec \<Rightarrow> real \<Rightarrow> body \<times> motion_result" where
  "integrateMotion ms object netForce deltaTime =
     (let dt = deltaTime * timeScale ms;
          accelerationV = \<lparr>vec_x = vec_x netForce / mass object,
                           vec_y = vec_y netForce / mass object\<rparr>;
          prevPosition = position object;
          object1 = object\<lparr>position :=
                      \<lparr>vec_x = vec_x (position object) + (vec_x (velocity object) * dt
                                 + 0.5 * vec_x accelerationV * dt * dt),
                       vec_y = vec_y (position object) + (vec_y (velocity object) * dt
                                 + 0.5 * vec_y accelerationV * dt * dt)\<rparr>\<rparr>;
          object2 = object1\<lparr>velocity :=
                      \<lparr>vec_x = vec_x (velocity object1) + vec_x accelerationV * dt,
                       vec_y = vec_y (velocity object1) + vec_y accelerationV * dt\<rparr>\<rparr>;
          object3 = object2\<lparr>acceleration := accelerationV\<rparr>
      in (object3,
          \<lparr>res_acceleration = accelerationV,
           displacement = \<lparr>vec_x = vec_x (position object3) - vec_x prevPosition,
                           vec_y = vec_y (position object3) - vec_y prevPosition\<rparr>\<rparr>))"

section \<open>The boundary clamp\<close>

text \<open>
  \<open>PhysicsEngine.applyBoundaries(object, canvasWidth = 800, canvasHeight = 400)\<close>:
  four tests in sequence, each reading what the one before wrote.
\<close>

definition applyBoundaries :: "body \<Rightarrow> real option \<Rightarrow> real option \<Rightarrow> body" where
  "applyBoundaries object canvasWidthArg canvasHeightArg =
     (let canvasWidth = (case canvasWidthArg of None \<Rightarrow> 800 | Some w \<Rightarrow> w);
          canvasHeight = (case canvasHeightArg of None \<Rightarrow> 400 | Some h \<Rightarrow> h);
          object1 =
            (if vec_x (position object) - radius object < 0
             then object\<lparr>position := (position object)\<lparr>vec_x := radius object\<rparr>,
                         velocity := (velocity object)\<lparr>vec_x := - vec_x (velocity object) * 0.8\<rparr>\<rparr>
             else object);
          object2 =
            (if vec_x (position object1) + radius object1 > canvasWidth
             then object1\<lparr>position := (position object1)\<lparr>vec_x := canvasWidth - radius object1\<rparr>,
                          velocity := (velocity object1)\<lparr>vec_x := - vec_x (velocity object1) * 0.8\<rparr>\<rparr>
             else object1);
          object3 =
            (if vec_y (position object2) - radius object2 < 0
             then object2\<lparr>position := (position object2)\<lparr>vec_y := radius object2\<rparr>,
                          velocity := (velocity object2)\<lparr>vec_y := - vec_y (velocity object2) * 0.8\<rparr>\<rparr>
             else object2);
          object4 =
            (if vec_y (position object3) + radius object3 > canvasHeight
             then object3\<lparr>position := (position object3)\<lparr>vec_y := canvasHeight - radius object3\<rparr>,
                          velocity := (velocity object3)\<lparr>vec_y := - vec_y (velocity object3) * 0.8\<rparr>\<rparr>
             else object3)
      in object4)"

text \<open>
  \<open>PhysicsEngine.applySecondLaw(objectId, force)\<close>: the step the second-law
  simulator calls. It advances by the engine's fixed \<open>timeStep\<close>, clamps to the
  canvas and returns the acceleration, which it does not store on the body.
\<close>

definition applySecondLaw ::
  "physics_engine \<Rightarrow> string \<Rightarrow> vec \<Rightarrow> physics_engine \<times> vec option" where
  "applySecondLaw eng objectId force =
     (case objects eng objectId of
        None \<Rightarrow> (eng, None)
      | Some object \<Rightarrow>
        let accelerationV = \<lparr>vec_x = vec_x force / mass object,
                             vec_y = vec_y force / mass object\<rparr>;
            object1 = object\<lparr>velocity :=
                        \<lparr>vec_x = vec_x (velocity object) + vec_x accelerationV * timeStep eng,
                         vec_y = vec_y (velocity object) + vec_y accelerationV * timeStep eng\<rparr>\<rparr>;
            object2 = object1\<lparr>position :=
                        \<lparr>vec_x = vec_x (position object1) + vec_x (velocity object1) * timeStep eng,
                         vec_y = vec_y (position object1) + vec_y (velocity object1) * timeStep eng\<rparr>\<rparr>;
            object3 = applyBoundaries object2 None None
        in (eng\<lparr>objects := (objects eng)(objectId \<mapsto> object3)\<rparr>, Some accelerationV))"

section \<open>Forces\<close>

text \<open>
  A force of the \<open>ForceSystem\<close>. \<open>direction\<close> is in radians. \<open>duration\<close> is
  \<open>None\<close> for \<open>Infinity\<close>.
\<close>

record force =
  force_id :: string
  magnitude :: real
  direction :: real
  force_type :: string
  active :: bool
  duration :: "real option"
  startTime :: real

record force_system =
  fs_forces :: "string \<rightharpoonup> force"
  fs_gravity :: real

definition new_ForceSystem :: force_system where
  "new_ForceSystem = \<lparr>fs_forces = Map.empty, fs_gravity = 9.81\<rparr>"

text \<open>
  \<open>ForceSystem.createForce(id, magnitude, direction, type = 'constant')\<close>;
  \<open>now\<close> is the value \<open>Date.now()\<close> returns at the call.
\<close>

definition createForce ::
  "force_system \<Rightarrow> real \<Rightarrow> string \<Rightarrow> real \<Rightarrow> real \<Rightarrow> string option
     \<Rightarrow> force_system \<times> force" where
  "createForce fs now ident magnitudeArg directionArg typeArg =
     (let force = \<lparr>force_id = ident,
                   magnitude = magnitudeArg,
                   direction = directionArg * pi / 180,
                   force_type = (case typeArg of None \<Rightarrow> ''constant'' | Some t \<Rightarrow> t),
                   active = True,
                   duration = None,
                   startTime = now\<rparr>
      in (fs\<lparr>fs_forces := (fs_forces fs)(ident \<mapsto> force)\<rparr>, force))"

definition calculateForceComponents :: "force \<Rightarrow> vec" where
  "calculateForceComponents force =
     \<lparr>vec_x = magnitude force * cos (direction force),
      vec_y = magnitude force * sin (direction force)\<rparr>"

definition applyGravity :: "force_system \<Rightarrow> body \<Rightarrow> vec" where
  "applyGravity fs object = \<lparr>vec_x = 0, vec_y = mass object * fs_gravity fs\<rparr>"

text \<open>
  \<open>ForceSystem.calculateNetForce(object, activeForces = [])\<close>. \<open>activeForces\<close>
  is a list of force ids; the \<open>forEach\<close> looks each one up and adds the
  components of a force that exists and is active. \<open>add_force\<close> is the body of
  that callback, acting on the accumulator \<open>netForce\<close>.
\<close>

definition add_force :: "force_system \<Rightarrow> string \<Rightarrow> vec \<Rightarrow> vec" where
  "add_force fs forceId netForce =
     (case fs_forces fs forceId of
        None \<Rightarrow> netForce
      | Some force \<Rightarrow>
          if active force
          then (let components = calculateForceComponents force
                in \<lparr>vec_x = vec_x netForce + vec_x components,
                    vec_y = vec_y netForce + vec_y components\<rparr>)
          else netForce)"

definition calculateNetForce :: "force_system \<Rightarrow> body \<Rightarrow> string list option \<Rightarrow> vec" where
  "calculateNetForce fs object activeForcesArg =
     (let activeForces = (case activeForcesArg of None \<Rightarrow> [] | Some ids \<Rightarrow> ids);
          netForce0 = \<lparr>vec_x = 0, vec_y = 0\<rparr>;
          gravityV = applyGravity fs object;
          netForce1 = \<lparr>vec_x = vec_x netForce0 + vec_x gravityV,
                       vec_y = vec_y netForce0 + vec_y gravityV\<rparr>
      in fold (add_force fs) activeForces netForce1)"

text \<open>
  The net force as the specification words it: gravity if it is enabled, plus
  the components of every force of the given ones whose \<open>active\<close> flag is true.
\<close>

definition netForce_spec :: "force_system \<Rightarrow> body \<Rightarrow> bool \<Rightarrow> force list \<Rightarrow> vec" where
  "netForce_spec fs object gravityEnabled namedForces =
     \<lparr>vec_x = (if gravityEnabled then vec_x (applyGravity fs object) else 0) +
              (\<Sum>f \<leftarrow> filter active namedForces. vec_x (calculateForceComponents f)),
      vec_y = (if gravityEnabled then vec_y (applyGravity fs object) else 0) +
              (\<Sum>f \<leftarrow> filter active namedForces. vec_y (calculateForceComponents f))\<rparr>"

text \<open>The forces that a list of ids names in the registry, in the list's order.\<close>

definition registered :: "force_system \<Rightarrow> string list \<Rightarrow> force list" where
  "registered fs ids = List.map_filter (fs_forces fs) ids"


section \<open>Concrete scenes\<close>

text \<open>
  Engines on which the theorems are evaluated. \<open>head_on\<close>: two unit masses on
  the x axis, 15 apart, the left one moving right at 2 towards the other at
  rest. \<open>oblique\<close>: masses 2 and 3, 5 apart along the direction (3, 4),
  approaching. \<open>receding\<close>: the same places, moving apart.
\<close>

definition head_on :: physics_engine where
  "head_on = two_bodies \<lparr>vec_x = 0, vec_y = 0\<rparr> \<lparr>vec_x = 2, vec_y = 0\<rparr> 1
                        \<lparr>vec_x = 15, vec_y = 0\<rparr> \<lparr>vec_x = 0, vec_y = 0\<rparr> 1"

definition oblique :: physics_engine where
  "oblique = two_bodies \<lparr>vec_x = 0, vec_y = 0\<rparr> \<lparr>vec_x = 2, vec_y = 1\<rparr> 2
                        \<lparr>vec_x = 3, vec_y = 4\<rparr> \<lparr>vec_x = - 1, vec_y = 0\<rparr> 3"

definition receding :: physics_engine where
  "receding = two_bodies \<lparr>vec_x = 0, vec_y = 0\<rparr> \<lparr>vec_x = - 1, vec_y = 0\<rparr> 1
                        \<lparr>vec_x = 3, vec_y = 4\<rparr> \<lparr>vec_x = 1, vec_y = 0\<rparr> 1"

text \<open>
  Scenario 1 of the specification: the pair of the third-law simulator with
  its initial velocities (5, 0) and (-3, 0), at the abscissas 300 and 339, so
  that the centres are 39 apart, less than the sum 40 of the radii.
\<close>

definition contact_scene :: physics_engine where
  "contact_scene = pair_at (createObjects new_PhysicsEngine default_third_law_config) 300 339"

text \<open>
  Scenario 2 of the specification: the body of the second-law simulator (mass
  1, at rest) and its force of 20 N at 0 degrees, built by \<open>createForce\<close> and
  resolved into components.
\<close>

definition test_object :: body where
  "test_object =
     snd (createObject new_PhysicsEngine ''test-object'' \<lparr>vec_x = 150, vec_y = 200\<rparr>
            (Some \<lparr>vec_x = 0, vec_y = 0\<rparr>) (Some 1) (Some 15))"

definition force_20N :: vec where
  "force_20N =
     calculateForceComponents (snd (createForce new_ForceSystem 0 ''push'' 20 0 None))"

text \<open>
  A force registry with two active forces, 20 N at 0 degrees and 5 N at 180
  degrees, and a third force that has been deactivated.
\<close>

definition three_forces :: force_system where
  "three_forces =
     (let (fs1, f1) = createForce new_ForceSystem 0 ''right'' 20 0 None;
          (fs2, f2) = createForce fs1 0 ''left'' 5 180 None;
          (fs3, f3) = createForce fs2 0 ''off'' 7 0 None
      in fs3\<lparr>fs_forces := (fs_forces fs3)(''off'' \<mapsto> f3\<lparr>active := False\<rparr>)\<rparr>)"

text \<open>
  Two bodies for the boundary clamp on the default canvas of 800 by 400: a ball
  of radius 10 that has crossed the right and the top limit, and a ball of
  radius 500, wider than the canvas.
\<close>

definition corner_ball :: body where
  "corner_ball =
     snd (createObject new_PhysicsEngine ''ball'' \<lparr>vec_x = 795, vec_y = 4\<rparr>
            (Some \<lparr>vec_x = 10, vec_y = - 5\<rparr>) (Some 1) None)"

definition oversized_ball :: body where
  "oversized_ball =
     snd (createObject new_PhysicsEngine ''ball'' \<lparr>vec_x = 100, vec_y = 200\<rparr>
            (Some \<lparr>vec_x = 10, vec_y = 0\<rparr>) (Some 1) (Some 500))"

text \<open>A store holding the two vectors a caller passes to \<open>createObject\<close>.\<close>

definition caller_store :: store where
  "caller_store = [\<lparr>vec_x = 200, vec_y = 200\<rparr>, \<lparr>vec_x = 5, vec_y = 0\<rparr>]"

section \<open>Properties of the collision resolver\<close>

subsection \<open>Auxiliary facts\<close>

text \<open>The square roots that the concrete scenes need.\<close>

lemma sqrt_25: "sqrt 25 = 5"
  using real_sqrt_abs2 [of 5] by simp

lemma sqrt_225: "sqrt 225 = 15"
  using real_sqrt_abs2 [of 15] by simp

lemma sqrt_1521: "sqrt 1521 = 39"
  using real_sqrt_abs2 [of 39] by simp

text \<open>The normal has length one whenever the centres differ.\<close>

lemma unit_normal:
  assumes "centre_distance a b \<noteq> 0"
  shows "(normal_x a b)\<^sup>2 + (normal_y a b)\<^sup>2 = 1"
proof -
  let ?dx = "vec_x (position b) - vec_x (position a)"
  let ?dy = "vec_y (position b) - vec_y (position a)"
  have d2: "(centre_distance a b)\<^sup>2 = ?dx * ?dx + ?dy * ?dy"
    by (simp add: centre_distance_def)
  have "(normal_x a b)\<^sup>2 + (normal_y a b)\<^sup>2 = (?dx * ?dx + ?dy * ?dy) / (centre_distance a b)\<^sup>2"
    by (simp add: normal_x_def normal_y_def power_divide add_divide_distrib power2_eq_square)
  also have "\<dots> = (centre_distance a b)\<^sup>2 / (centre_distance a b)\<^sup>2"
    by (simp only: d2)
  also have "\<dots> = 1" using assms by simp
  finally show ?thesis .
qed

text \<open>Two bodies at different places are stored under different ids.\<close>

lemma distinct_ids:
  assumes "objects eng i = Some a" "objects eng j = Some b" "centre_distance a b \<noteq> 0"
  shows "i \<noteq> j"
  using assms by (auto simp: centre_distance_def)

text \<open>
  What a resolving call writes: both velocities move along the normal, by the
  impulse over the mass, \<open>objectA\<close> with the sign of the impulse and \<open>objectB\<close>
  against it.
\<close>

lemma applyThirdLaw_velocities:
  assumes "objects eng i = Some a" "objects eng j = Some b"
    and "centre_distance a b \<noteq> 0" and "relativeSpeed a b \<le> 0"
  shows "\<exists>eng' r a' b'. applyThirdLaw eng i j ct = (eng', Some r) \<and>
           objects eng' i = Some a' \<and> objects eng' j = Some b' \<and>
           mass a' = mass a \<and> mass b' = mass b \<and>
           vec_x (velocity a') = vec_x (velocity a) + impulse_of a b ct * normal_x a b / mass a \<and>
           vec_y (velocity a') = vec_y (velocity a) + impulse_of a b ct * normal_y a b / mass a \<and>
           vec_x (velocity b') = vec_x (velocity b) + - impulse_of a b ct * normal_x a b / mass b \<and>
           vec_y (velocity b') = vec_y (velocity b) + - impulse_of a b ct * normal_y a b / mass b"
proof -
  have ne: "i \<noteq> j" using distinct_ids assms(1-3) by blast
  have d: "sqrt ((vec_x (position b) - vec_x (position a)) * (vec_x (position b) - vec_x (position a)) +
           (vec_y (position b) - vec_y (position a)) * (vec_y (position b) - vec_y (position a))) \<noteq> 0"
    using assms(3) by (simp add: centre_distance_def)
  show ?thesis
    using assms(1,2,4) ne d
    by (simp add: applyThirdLaw_def Let_def relativeSpeed_def relative_speed_along_def
        normal_x_def normal_y_def centre_distance_def impulse_of_def restitution_of_def
        del: real_sqrt_eq_zero_cancel_iff)
qed

lemma sum_inverse_pos: "0 < (ma::real) \<Longrightarrow> 0 < mb \<Longrightarrow> 1 / ma + 1 / mb \<noteq> 0"
  by (simp add: add_pos_pos pos_add_strict less_imp_neq[symmetric])

subsection \<open>Momentum\<close>

text \<open>
  C1. For two bodies of positive mass and each of the collision types elastic,
  inelastic and perfectly-inelastic: when \<open>applyThirdLaw\<close> resolves (the centres
  differ and the relative speed along the normal is at most 0), it returns a
  result, keeps both masses, and the vector momentum of the pair is unchanged:
  \<open>massA * deltaVA + massB * deltaVB = 0\<close> in x and in y.
\<close>

theorem applyThirdLaw_conserves_momentum:
  assumes "objects eng objectAId = Some a" and "objects eng objectBId = Some b"
    and "0 < mass a" and "0 < mass b"
    and "ct \<in> {''elastic'', ''inelastic'', ''perfectly-inelastic''}"
    and "centre_distance a b \<noteq> 0" and "relativeSpeed a b \<le> 0"
  shows "\<exists>eng' r a' b'.
           applyThirdLaw eng objectAId objectBId (Some ct) = (eng', Some r) \<and>
           objects eng' objectAId = Some a' \<and> objects eng' objectBId = Some b' \<and>
           mass a' = mass a \<and> mass b' = mass b \<and>
           mass a * (vec_x (velocity a') - vec_x (velocity a)) +
             mass b * (vec_x (velocity b') - vec_x (velocity b)) = 0 \<and>
           mass a * (vec_y (velocity a') - vec_y (velocity a)) +
             mass b * (vec_y (velocity b') - vec_y (velocity b)) = 0"
proof -
  obtain eng' r a' b' where
    res: "applyThirdLaw eng objectAId objectBId (Some ct) = (eng', Some r)"
      "objects eng' objectAId = Some a'" "objects eng' objectBId = Some b'"
      "mass a' = mass a" "mass b' = mass b"
    and vax: "vec_x (velocity a') =
        vec_x (velocity a) + impulse_of a b (Some ct) * normal_x a b / mass a"
    and vay: "vec_y (velocity a') =
        vec_y (velocity a) + impulse_of a b (Some ct) * normal_y a b / mass a"
    and vbx: "vec_x (velocity b') =
        vec_x (velocity b) + - impulse_of a b (Some ct) * normal_x a b / mass b"
    and vby: "vec_y (velocity b') =
        vec_y (velocity b) + - impulse_of a b (Some ct) * normal_y a b / mass b"
    using applyThirdLaw_velocities [OF assms(1,2,6,7), of "Some ct"] by blast
  have "mass a * (vec_x (velocity a') - vec_x (velocity a)) +
        mass b * (vec_x (velocity b') - vec_x (velocity b)) = 0"
    using assms(3,4) by (simp add: vax vbx)
  moreover have "mass a * (vec_y (velocity a') - vec_y (velocity a)) +
        mass b * (vec_y (velocity b') - vec_y (velocity b)) = 0"
    using assms(3,4) by (simp add: vay vby)
  ultimately show ?thesis using res by blast
qed

text \<open>The theorem at the scene \<open>oblique\<close>, resolved as an inelastic collision.\<close>

theorem applyThirdLaw_conserves_momentum_witness:
  "\<exists>a b. objects oblique ''a'' = Some a \<and> objects oblique ''b'' = Some b \<and>
     mass a = 2 \<and> mass b = 3 \<and> centre_distance a b = 5 \<and> relativeSpeed a b = - 13 / 5 \<and>
     (\<exists>eng' r a' b'.
        applyThirdLaw oblique ''a'' ''b'' (Some ''inelastic'') = (eng', Some r) \<and>
        objects eng' ''a'' = Some a' \<and> objects eng' ''b'' = Some b' \<and>
        mass a' = mass a \<and> mass b' = mass b \<and>
        mass a * (vec_x (velocity a') - vec_x (velocity a)) +
          mass b * (vec_x (velocity b') - vec_x (velocity b)) = 0 \<and>
        mass a * (vec_y (velocity a') - vec_y (velocity a)) +
          mass b * (vec_y (velocity b') - vec_y (velocity b)) = 0)"
proof -
  obtain a b where ab: "objects oblique ''a'' = Some a" "objects oblique ''b'' = Some b"
    and m: "mass a = 2" "mass b = 3"
    and d: "centre_distance a b = 5" and rs: "relativeSpeed a b = - 13 / 5"
    by (simp add: oblique_def two_bodies_def createObject_def new_PhysicsEngine_def
        centre_distance_def relativeSpeed_def relative_speed_along_def normal_x_def
        normal_y_def Let_def sqrt_25)
  have h: "0 < mass a" "0 < mass b"
    "''inelastic'' \<in> {''elastic'', ''inelastic'', ''perfectly-inelastic''}"
    "centre_distance a b \<noteq> 0" "relativeSpeed a b \<le> 0"
    by (simp_all add: m d rs)
  from applyThirdLaw_conserves_momentum [OF ab h] ab m d rs
  show ?thesis by blast
qed

subsection \<open>Separating bodies\<close>

text \<open>
  C5. When the relative velocity of the two bodies along the collision normal
  is strictly positive, \<open>applyThirdLaw\<close> returns without a result and leaves the
  engine as it was: no velocity and no position of any body changes.
\<close>

theorem applyThirdLaw_separating_noop:
  assumes "objects eng objectAId = Some a" and "objects eng objectBId = Some b"
    and "relativeSpeed a b > 0"
  shows "applyThirdLaw eng objectAId objectBId ct = (eng, None)"
  using assms
  by (simp add: applyThirdLaw_def relativeSpeed_def relative_speed_along_def
      normal_x_def normal_y_def centre_distance_def Let_def)

text \<open>The theorem at the scene \<open>receding\<close>.\<close>

theorem applyThirdLaw_separating_noop_witness:
  "\<exists>a b. objects receding ''a'' = Some a \<and> objects receding ''b'' = Some b \<and>
     relativeSpeed a b = 6 / 5 \<and>
     applyThirdLaw receding ''a'' ''b'' (Some ''elastic'') = (receding, None)"
proof -
  obtain a b where ab: "objects receding ''a'' = Some a" "objects receding ''b'' = Some b"
    and rs: "relativeSpeed a b = 6 / 5"
    by (simp add: receding_def two_bodies_def createObject_def new_PhysicsEngine_def
        centre_distance_def relativeSpeed_def relative_speed_along_def normal_x_def
        normal_y_def Let_def sqrt_25)
  have "relativeSpeed a b > 0" by (simp add: rs)
  from applyThirdLaw_separating_noop [OF ab this, of "Some ''elastic''"] ab rs
  show ?thesis by blast
qed

subsection \<open>The relative speed after a resolution\<close>

text \<open>
  With restitution \<open>e\<close>, a resolving call leaves the pair with \<open>(2 + e)\<close> times
  its relative speed along the normal: the impulse is added to \<open>objectA\<close> and
  subtracted from \<open>objectB\<close>, which drives the bodies further into each other.
\<close>

lemma applyThirdLaw_relative_speed_after:
  assumes "objects eng objectAId = Some a" and "objects eng objectBId = Some b"
    and "0 < mass a" and "0 < mass b"
    and "centre_distance a b \<noteq> 0" and "relativeSpeed a b \<le> 0"
  shows "\<exists>eng' r a' b'.
           applyThirdLaw eng objectAId objectBId ct = (eng', Some r) \<and>
           objects eng' objectAId = Some a' \<and> objects eng' objectBId = Some b' \<and>
           relative_speed_along a b a' b' = (2 + restitution_of ct) * relativeSpeed a b"
proof -
  obtain eng' r a' b' where
    res: "applyThirdLaw eng objectAId objectBId ct = (eng', Some r)"
      "objects eng' objectAId = Some a'" "objects eng' objectBId = Some b'"
    and vax: "vec_x (velocity a') =
        vec_x (velocity a) + impulse_of a b ct * normal_x a b / mass a"
    and vay: "vec_y (velocity a') =
        vec_y (velocity a) + impulse_of a b ct * normal_y a b / mass a"
    and vbx: "vec_x (velocity b') =
        vec_x (velocity b) + - impulse_of a b ct * normal_x a b / mass b"
    and vby: "vec_y (velocity b') =
        vec_y (velocity b) + - impulse_of a b ct * normal_y a b / mass b"
    using applyThirdLaw_velocities [OF assms(1,2,5,6), of ct] by blast
  define J where "J = impulse_of a b ct"
  define nx where "nx = normal_x a b"
  define ny where "ny = normal_y a b"
  define s where "s = 1 / mass a + 1 / mass b"
  have n1: "nx\<^sup>2 + ny\<^sup>2 = 1" using unit_normal [OF assms(5)] by (simp add: nx_def ny_def)
  have s0: "s \<noteq> 0" using sum_inverse_pos [OF assms(3,4)] by (simp add: s_def)
  have Js: "J * s = - (1 + restitution_of ct) * relativeSpeed a b"
    using s0 by (simp add: J_def impulse_of_def s_def)
  have "relative_speed_along a b a' b' =
          relativeSpeed a b - J * s * (nx\<^sup>2 + ny\<^sup>2)"
    by (simp add: relative_speed_along_def relativeSpeed_def vax vay vbx vby
        J_def nx_def ny_def s_def power2_eq_square algebra_simps)
  also have "\<dots> = (2 + restitution_of ct) * relativeSpeed a b"
    by (simp add: n1 Js algebra_simps)
  finally show ?thesis using res by blast
qed

text \<open>
  C2. The energy law by restitution, evaluated on the scene \<open>head_on\<close> (positive
  masses, centres 15 apart, relative speed -2 along the normal). The law asks
  that an elastic resolution keeps the kinetic energy along the normal and that
  a perfectly-inelastic one leaves relative speed 0 along it. The method
  instead takes the energy along the normal from 2 to 10 when elastic, and
  leaves the relative speed -4 when perfectly-inelastic.
\<close>

theorem applyThirdLaw_energy_law_fails:
  "\<exists>a b. objects head_on ''a'' = Some a \<and> objects head_on ''b'' = Some b \<and>
     mass a = 1 \<and> mass b = 1 \<and>
     velocity a = \<lparr>vec_x = 2, vec_y = 0\<rparr> \<and> velocity b = \<lparr>vec_x = 0, vec_y = 0\<rparr> \<and>
     centre_distance a b = 15 \<and> relativeSpeed a b = - 2 \<and>
     normal_kinetic_energy a b a b = 2 \<and>
     (\<exists>eng' r a' b'.
        applyThirdLaw head_on ''a'' ''b'' (Some ''elastic'') = (eng', Some r) \<and>
        objects eng' ''a'' = Some a' \<and> objects eng' ''b'' = Some b' \<and>
        velocity a' = \<lparr>vec_x = 4, vec_y = 0\<rparr> \<and> velocity b' = \<lparr>vec_x = - 2, vec_y = 0\<rparr> \<and>
        normal_kinetic_energy a b a' b' = 10) \<and>
     (\<exists>eng' r a' b'.
        applyThirdLaw head_on ''a'' ''b'' (Some ''perfectly-inelastic'') = (eng', Some r) \<and>
        objects eng' ''a'' = Some a' \<and> objects eng' ''b'' = Some b' \<and>
        velocity a' = \<lparr>vec_x = 3, vec_y = 0\<rparr> \<and> velocity b' = \<lparr>vec_x = - 1, vec_y = 0\<rparr> \<and>
        relative_speed_along a b a' b' = - 4)"
  by (simp add: head_on_def two_bodies_def createObject_def new_PhysicsEngine_def
      applyThirdLaw_def Let_def centre_distance_def relativeSpeed_def relative_speed_along_def
      normal_x_def normal_y_def normal_kinetic_energy_def calculateMomentum_def sqrt_225
      power2_eq_square)

subsection \<open>Scenario 1\<close>

text \<open>
  C3. Scenario 1 of the specification, evaluated on \<open>contact_scene\<close>: body A
  of mass 1 and radius 20 moving at (5, 0), body B of mass 2 and radius 20
  moving at (-3, 0), overlapping, resolved as elastic. The one-dimensional
  elastic collision gives -17/3 and 7/3 (-5.67 and 2.33); the method leaves
  A at 47/3 (15.67) and B at -25/3 (-8.33).
\<close>

theorem applyThirdLaw_scenario1:
  "checkCollision contact_scene ''object-a'' ''object-b'' \<and>
   (\<exists>a b. objects contact_scene ''object-a'' = Some a \<and>
      objects contact_scene ''object-b'' = Some b \<and>
      mass a = 1 \<and> radius a = 20 \<and> velocity a = \<lparr>vec_x = 5, vec_y = 0\<rparr> \<and>
      mass b = 2 \<and> radius b = 20 \<and> velocity b = \<lparr>vec_x = - 3, vec_y = 0\<rparr> \<and>
      centre_distance a b = 39) \<and>
   (\<exists>eng' r a' b'.
      applyThirdLaw contact_scene ''object-a'' ''object-b'' (Some ''elastic'') = (eng', Some r) \<and>
      objects eng' ''object-a'' = Some a' \<and> objects eng' ''object-b'' = Some b' \<and>
      velocity a' = \<lparr>vec_x = 47 / 3, vec_y = 0\<rparr> \<and>
      velocity b' = \<lparr>vec_x = - 25 / 3, vec_y = 0\<rparr>)"
  by (simp add: contact_scene_def pair_at_def createObjects_def default_third_law_config_def
      createObject_def new_PhysicsEngine_def applyThirdLaw_def checkCollision_def Let_def
      centre_distance_def calculateMomentum_def sqrt_1521)

text \<open>
  The outcome does not depend on where the contact happens: wherever A is to
  the left of B on their common horizontal line, the method leaves the same
  two velocities.
\<close>

lemma applyThirdLaw_scenario1_on_a_line:
  assumes "xa < xb"
  shows "\<exists>eng' r a' b'.
      applyThirdLaw (pair_at (createObjects new_PhysicsEngine default_third_law_config) xa xb)
        ''object-a'' ''object-b'' (Some ''elastic'') = (eng', Some r) \<and>
      objects eng' ''object-a'' = Some a' \<and> objects eng' ''object-b'' = Some b' \<and>
      velocity a' = \<lparr>vec_x = 47 / 3, vec_y = 0\<rparr> \<and>
      velocity b' = \<lparr>vec_x = - 25 / 3, vec_y = 0\<rparr>"
proof -
  have d: "sqrt ((xb - xa) * (xb - xa)) = xb - xa"
    using assms by simp
  have n: "(xb - xa) / (xb - xa) = 1" using assms by simp
  show ?thesis
    using assms
    by (simp add: pair_at_def createObjects_def default_third_law_config_def
      createObject_def new_PhysicsEngine_def applyThirdLaw_def Let_def d n calculateMomentum_def)
qed

subsection \<open>Unknown collision types\<close>

text \<open>
  C4, as the method behaves. For every collision type outside elastic,
  inelastic and perfectly-inelastic, \<open>applyThirdLaw\<close> fails in no way: the
  restitution keeps its initial value 1.0 and the call does exactly what it
  does for the type elastic, engine and returned value alike.
\<close>

theorem applyThirdLaw_unknown_type_is_elastic:
  assumes "ct \<notin> {''elastic'', ''inelastic'', ''perfectly-inelastic''}"
  shows "restitution_of (Some ct) = 1 \<and>
         applyThirdLaw eng objectAId objectBId (Some ct) =
         applyThirdLaw eng objectAId objectBId (Some ''elastic'')"
  using assms by (simp add: restitution_of_def applyThirdLaw_def Let_def)

text \<open>The theorem at the unknown type \<open>bouncy\<close>, on the scene \<open>oblique\<close>.\<close>

theorem applyThirdLaw_unknown_type_is_elastic_witness:
  "''bouncy'' \<notin> {''elastic'', ''inelastic'', ''perfectly-inelastic''} \<and>
   restitution_of (Some ''bouncy'') = 1 \<and>
   applyThirdLaw oblique ''a'' ''b'' (Some ''bouncy'') =
   applyThirdLaw oblique ''a'' ''b'' (Some ''elastic'')"
proof -
  have h: "''bouncy'' \<notin> {''elastic'', ''inelastic'', ''perfectly-inelastic''}" by simp
  from applyThirdLaw_unknown_type_is_elastic [OF h, of oblique "''a''" "''b''"] h
  show ?thesis by simp
qed

text \<open>
  Against C4 as stated (an unknown type fails with an invalid-parameter error
  and no default restitution is substituted): on the scene \<open>head_on\<close> the type
  \<open>bouncy\<close> yields a result, with the impulse 2 that restitution 1.0 gives, and
  both velocities are rewritten.
\<close>

theorem applyThirdLaw_unknown_type_resolves:
  "''bouncy'' \<notin> {''elastic'', ''inelastic'', ''perfectly-inelastic''} \<and>
   (\<exists>eng' r a' b'.
      applyThirdLaw head_on ''a'' ''b'' (Some ''bouncy'') = (eng', Some r) \<and>
      objects eng' ''a'' = Some a' \<and> objects eng' ''b'' = Some b' \<and>
      forceA r = \<lparr>vec_x = 2, vec_y = 0\<rparr> \<and> forceB r = \<lparr>vec_x = - 2, vec_y = 0\<rparr> \<and>
      velocity a' = \<lparr>vec_x = 4, vec_y = 0\<rparr> \<and> velocity b' = \<lparr>vec_x = - 2, vec_y = 0\<rparr>)"
  by (simp add: head_on_def two_bodies_def createObject_def new_PhysicsEngine_def
      applyThirdLaw_def Let_def calculateMomentum_def sqrt_225)

section \<open>Properties of the integration steps\<close>

text \<open>
  C6. For a body of positive mass, any net force and any time step,
  \<open>integrateEuler\<close> computes the acceleration \<open>netForce / mass\<close>, adds
  \<open>acceleration * dt\<close> to the velocity, then adds \<open>velocity * dt\<close> to the position
  with the velocity already updated, stores the acceleration on the body,
  changes no other field, and returns the acceleration. Here \<open>dt\<close> is the
  \<open>deltaTime\<close> passed in, scaled by the \<open>timeScale\<close> of the motion system. So
  mass times the returned acceleration is the net force, and the position
  gains \<open>v * dt + a * dt\<^sup>2\<close> over the old velocity \<open>v\<close>, not the \<open>v * dt\<close> of the
  explicit Euler step.
\<close>

theorem integrateEuler_step:
  assumes "0 < mass object"
  shows "\<exists>object' a.
           integrateEuler ms object netForce deltaTime = (object', a) \<and>
           a = \<lparr>vec_x = vec_x netForce / mass object, vec_y = vec_y netForce / mass object\<rparr> \<and>
           mass object * vec_x a = vec_x netForce \<and> mass object * vec_y a = vec_y netForce \<and>
           velocity object' =
             \<lparr>vec_x = vec_x (velocity object) + vec_x a * (deltaTime * timeScale ms),
              vec_y = vec_y (velocity object) + vec_y a * (deltaTime * timeScale ms)\<rparr> \<and>
           position object' =
             \<lparr>vec_x = vec_x (position object) + vec_x (velocity object') * (deltaTime * timeScale ms),
              vec_y = vec_y (position object) + vec_y (velocity object') * (deltaTime * timeScale ms)\<rparr> \<and>
           vec_x (position object') =
             vec_x (position object) + vec_x (velocity object) * (deltaTime * timeScale ms) +
             vec_x a * (deltaTime * timeScale ms)\<^sup>2 \<and>
           vec_y (position object') =
             vec_y (position object) + vec_y (velocity object) * (deltaTime * timeScale ms) +
             vec_y a * (deltaTime * timeScale ms)\<^sup>2 \<and>
           acceleration object' = a \<and>
           object' = object\<lparr>velocity := velocity object', position := position object',
                             acceleration := a\<rparr>"
proof -
  define dt where "dt = deltaTime * timeScale ms"
  define a where
    "a = \<lparr>vec_x = vec_x netForce / mass object, vec_y = vec_y netForce / mass object\<rparr>"
  define v' where
    "v' = \<lparr>vec_x = vec_x (velocity object) + vec_x a * dt,
           vec_y = vec_y (velocity object) + vec_y a * dt\<rparr>"
  define p' where
    "p' = \<lparr>vec_x = vec_x (position object) + vec_x v' * dt,
           vec_y = vec_y (position object) + vec_y v' * dt\<rparr>"
  have run: "integrateEuler ms object netForce deltaTime =
               (object\<lparr>velocity := v', position := p', acceleration := a\<rparr>, a)"
    by (simp add: integrateEuler_def Let_def dt_def a_def v'_def p'_def)
  have newton: "mass object * vec_x a = vec_x netForce" "mass object * vec_y a = vec_y netForce"
    using assms by (simp_all add: a_def)
  have expanded:
    "vec_x p' = vec_x (position object) + vec_x (velocity object) * dt + vec_x a * dt\<^sup>2"
    "vec_y p' = vec_y (position object) + vec_y (velocity object) * dt + vec_y a * dt\<^sup>2"
    by (simp_all add: p'_def v'_def power2_eq_square algebra_simps)
  show ?thesis
    unfolding run dt_def [symmetric]
    using newton expanded
    by (simp add: a_def [symmetric] v'_def [symmetric] p'_def [symmetric])
qed

text \<open>The theorem at the test body, force (6, -4) and half a second.\<close>

theorem integrateEuler_step_witness:
  "0 < mass test_object \<and>
   (\<exists>object' a.
      integrateEuler new_MotionSystem test_object \<lparr>vec_x = 6, vec_y = - 4\<rparr> (1 / 2) = (object', a) \<and>
      a = \<lparr>vec_x = 6, vec_y = - 4\<rparr> \<and>
      velocity object' = \<lparr>vec_x = 3, vec_y = - 2\<rparr> \<and>
      position object' = \<lparr>vec_x = 150 + 3 / 2, vec_y = 199\<rparr> \<and>
      acceleration object' = a)"
proof -
  have h: "0 < mass test_object" by (simp add: test_object_def createObject_def Let_def)
  from integrateEuler_step [OF h, of new_MotionSystem "\<lparr>vec_x = 6, vec_y = - 4\<rparr>" "1 / 2"] h
  show ?thesis
    by (simp add: test_object_def createObject_def new_MotionSystem_def integrateEuler_def Let_def)
qed

text \<open>
  \<open>applySecondLaw\<close> makes the same velocity and position update with the
  engine's fixed \<open>timeStep\<close>, but it does not store the acceleration on the body
  and it clamps the body to the canvas afterwards.
\<close>

lemma applySecondLaw_step:
  assumes "objects eng objectId = Some object"
  shows "\<exists>object' a.
           integrateEuler new_MotionSystem object force (timeStep eng) = (object', a) \<and>
           applySecondLaw eng objectId force =
             (eng\<lparr>objects := (objects eng)(objectId \<mapsto>
                     applyBoundaries (object'\<lparr>acceleration := acceleration object\<rparr>) None None)\<rparr>,
              Some a)"
  using assms
  by (simp add: applySecondLaw_def integrateEuler_def new_MotionSystem_def Let_def)

subsection \<open>Scenario 2\<close>

text \<open>
  Against C7 as stated: with the force (20, 0), mass 1, no initial velocity and
  one step of 1 s, the semi-implicit step \<open>integrateEuler\<close> does not advance the
  position by 10.
\<close>

theorem scenario2_counterexample:
  "force_20N = \<lparr>vec_x = 20, vec_y = 0\<rparr> \<and> mass test_object = 1 \<and>
   velocity test_object = \<lparr>vec_x = 0, vec_y = 0\<rparr> \<and>
   \<not> (\<exists>object' a.
        integrateEuler new_MotionSystem test_object force_20N 1 = (object', a) \<and>
        a = \<lparr>vec_x = 20, vec_y = 0\<rparr> \<and> velocity object' = \<lparr>vec_x = 20, vec_y = 0\<rparr> \<and>
        vec_x (position object') - vec_x (position test_object) = 10)"
  by (simp add: test_object_def force_20N_def createObject_def createForce_def
      calculateForceComponents_def new_MotionSystem_def integrateEuler_def Let_def)

text \<open>
  C7, as the methods behave. On that input, one step of 1 s gives the
  acceleration (20, 0) and the final velocity (20, 0) under both steps; the
  position advances by 20 under \<open>integrateEuler\<close>, which uses the updated
  velocity, and by 10 under \<open>integrateMotion\<close>, which uses the old velocity and
  half the acceleration.
\<close>

theorem scenario2_steps:
  "force_20N = \<lparr>vec_x = 20, vec_y = 0\<rparr> \<and> mass test_object = 1 \<and>
   velocity test_object = \<lparr>vec_x = 0, vec_y = 0\<rparr> \<and>
   (\<exists>object' a.
      integrateEuler new_MotionSystem test_object force_20N 1 = (object', a) \<and>
      a = \<lparr>vec_x = 20, vec_y = 0\<rparr> \<and> velocity object' = \<lparr>vec_x = 20, vec_y = 0\<rparr> \<and>
      vec_x (position object') - vec_x (position test_object) = 20 \<and>
      vec_y (position object') - vec_y (position test_object) = 0) \<and>
   (\<exists>object' r.
      integrateMotion new_MotionSystem test_object force_20N 1 = (object', r) \<and>
      res_acceleration r = \<lparr>vec_x = 20, vec_y = 0\<rparr> \<and>
      velocity object' = \<lparr>vec_x = 20, vec_y = 0\<rparr> \<and>
      displacement r = \<lparr>vec_x = 10, vec_y = 0\<rparr> \<and>
      vec_x (position object') - vec_x (position test_object) = 10)"
  by (simp add: test_object_def force_20N_def createObject_def createForce_def
      calculateForceComponents_def new_MotionSystem_def integrateEuler_def integrateMotion_def
      Let_def)

section \<open>Properties of the net force\<close>

text \<open>The \<open>forEach\<close> adds up the components of the registered, active forces.\<close>

lemma fold_add_force:
  "fold (add_force fs) ids v =
     \<lparr>vec_x = vec_x v +
        (\<Sum>f \<leftarrow> filter active (registered fs ids). vec_x (calculateForceComponents f)),
      vec_y = vec_y v +
        (\<Sum>f \<leftarrow> filter active (registered fs ids). vec_y (calculateForceComponents f))\<rparr>"
proof (induction ids arbitrary: v)
  case Nil
  show ?case by (simp add: registered_def)
next
  case (Cons i ids)
  show ?case
  proof (cases "fs_forces fs i")
    case None
    then have "add_force fs i v = v" "registered fs (i # ids) = registered fs ids"
      by (simp_all add: add_force_def registered_def)
    then show ?thesis by (simp add: Cons.IH)
  next
    case (Some f)
    then have r: "registered fs (i # ids) = f # registered fs ids"
      by (simp add: registered_def)
    show ?thesis
    proof (cases "active f")
      case True
      with Some have "add_force fs i v =
          \<lparr>vec_x = vec_x v + vec_x (calculateForceComponents f),
           vec_y = vec_y v + vec_y (calculateForceComponents f)\<rparr>"
        by (simp add: add_force_def Let_def)
      with True show ?thesis by (simp add: Cons.IH r add.assoc)
    next
      case False
      with Some have "add_force fs i v = v" by (simp add: add_force_def)
      with False show ?thesis by (simp add: Cons.IH r)
    qed
  qed
qed

text \<open>A permutation of the ids permutes the forces they name.\<close>

lemma registered_mset:
  assumes "mset ids = mset ids'"
  shows "mset (filter active (registered fs ids)) = mset (filter active (registered fs ids'))"
  by (simp add: registered_def map_filter_def assms)

lemma sum_list_mset_cong:
  fixes g :: "'a \<Rightarrow> real"
  assumes "mset xs = mset ys"
  shows "(\<Sum>x \<leftarrow> xs. g x) = (\<Sum>x \<leftarrow> ys. g x)"
proof -
  have "(\<Sum>x \<leftarrow> xs. g x) = sum_mset (image_mset g (mset xs))"
    by (simp add: sum_mset_sum_list [symmetric])
  also have "\<dots> = sum_mset (image_mset g (mset ys))" by (simp add: assms)
  also have "\<dots> = (\<Sum>x \<leftarrow> ys. g x)"
    by (simp add: sum_mset_sum_list [symmetric])
  finally show ?thesis .
qed

text \<open>
  C8, as the method behaves. \<open>calculateNetForce\<close> has no gravity switch: for
  every body and every list of force ids it returns gravity, always, plus the
  sum of the components of the forces that the ids name in the registry and
  whose \<open>active\<close> flag is true; an id that names no force adds nothing and a
  repeated id counts each time. With the list omitted the result is gravity
  alone. The result is the same for every permutation of the list.
\<close>

theorem calculateNetForce_sum:
  assumes "mset ids = mset ids'"
  shows "calculateNetForce fs object (Some ids) = netForce_spec fs object True (registered fs ids) \<and>
         calculateNetForce fs object None = applyGravity fs object \<and>
         calculateNetForce fs object (Some ids') = calculateNetForce fs object (Some ids)"
proof -
  have eq: "\<And>l. calculateNetForce fs object (Some l) = netForce_spec fs object True (registered fs l)"
    by (simp add: calculateNetForce_def netForce_spec_def fold_add_force Let_def)
  have "netForce_spec fs object True (registered fs ids') =
        netForce_spec fs object True (registered fs ids)"
    unfolding netForce_spec_def
    using sum_list_mset_cong [OF registered_mset [OF assms, of fs],
        of "\<lambda>f. vec_x (calculateForceComponents f)"]
      sum_list_mset_cong [OF registered_mset [OF assms, of fs],
        of "\<lambda>f. vec_y (calculateForceComponents f)"]
    by simp
  moreover have "calculateNetForce fs object None = applyGravity fs object"
    by (simp add: calculateNetForce_def applyGravity_def)
  ultimately show ?thesis by (simp add: eq)
qed

text \<open>
  The theorem at the registry \<open>three_forces\<close> and the unit mass: the list names
  an active force of 20, the inactive one, an unknown id and an active force
  of 5 the other way.
\<close>

theorem calculateNetForce_sum_witness:
  "mset [''right'', ''off'', ''ghost'', ''left''] = mset [''left'', ''ghost'', ''right'', ''off''] \<and>
   registered three_forces [''right'', ''off'', ''ghost'', ''left''] =
     [\<lparr>force_id = ''right'', magnitude = 20, direction = 0, force_type = ''constant'',
        active = True, duration = None, startTime = 0\<rparr>,
      \<lparr>force_id = ''off'', magnitude = 7, direction = 0, force_type = ''constant'',
        active = False, duration = None, startTime = 0\<rparr>,
      \<lparr>force_id = ''left'', magnitude = 5, direction = pi, force_type = ''constant'',
        active = True, duration = None, startTime = 0\<rparr>] \<and>
   calculateNetForce three_forces test_object (Some [''right'', ''off'', ''ghost'', ''left'']) =
     \<lparr>vec_x = 15, vec_y = 9.81\<rparr> \<and>
   calculateNetForce three_forces test_object (Some [''left'', ''ghost'', ''right'', ''off'']) =
     \<lparr>vec_x = 15, vec_y = 9.81\<rparr>"
proof -
  have h: "mset [''right'', ''off'', ''ghost'', ''left''] = mset [''left'', ''ghost'', ''right'', ''off'']"
    by simp
  have r: "registered three_forces [''right'', ''off'', ''ghost'', ''left''] =
     [\<lparr>force_id = ''right'', magnitude = 20, direction = 0, force_type = ''constant'',
        active = True, duration = None, startTime = 0\<rparr>,
      \<lparr>force_id = ''off'', magnitude = 7, direction = 0, force_type = ''constant'',
        active = False, duration = None, startTime = 0\<rparr>,
      \<lparr>force_id = ''left'', magnitude = 5, direction = pi, force_type = ''constant'',
        active = True, duration = None, startTime = 0\<rparr>]"
    by (simp add: registered_def three_forces_def createForce_def new_ForceSystem_def Let_def)
  have v: "netForce_spec three_forces test_object True
             (registered three_forces [''right'', ''off'', ''ghost'', ''left'']) =
           \<lparr>vec_x = 15, vec_y = 9.81\<rparr>"
    unfolding r
    by (simp add: netForce_spec_def applyGravity_def calculateForceComponents_def
        three_forces_def createForce_def new_ForceSystem_def test_object_def createObject_def
        Let_def)
  from calculateNetForce_sum [OF h, of three_forces test_object] h r v
  show ?thesis by simp
qed

text \<open>
  Against C8 as stated (gravity only when it is enabled): the method takes no
  such switch, and with no force at all it still returns the weight of the
  body, where the net force of the specification with gravity disabled is 0.
\<close>

theorem calculateNetForce_gravity_counterexample:
  "calculateNetForce new_ForceSystem test_object (Some []) = \<lparr>vec_x = 0, vec_y = 9.81\<rparr> \<and>
   netForce_spec new_ForceSystem test_object False [] = \<lparr>vec_x = 0, vec_y = 0\<rparr> \<and>
   calculateNetForce new_ForceSystem test_object (Some []) \<noteq>
     netForce_spec new_ForceSystem test_object False []"
  by (simp add: calculateNetForce_def netForce_spec_def applyGravity_def new_ForceSystem_def
      test_object_def createObject_def Let_def)

section \<open>Properties of the boundary clamp\<close>

text \<open>
  C9, as the method behaves. For a body whose diameter does not exceed the
  width and the height of the canvas, each axis is treated on its own: when
  the circle crosses a limit on an axis, the coordinate is set to one radius
  from that wall and the velocity component becomes -0.8 times what it was;
  an axis with no crossing keeps its coordinate and its velocity; no other
  field changes; and a body that crosses no limit is returned as it was.
\<close>

theorem applyBoundaries_reflects:
  assumes W: "W = (case canvasWidthArg of None \<Rightarrow> 800 | Some w \<Rightarrow> w)"
    and H: "H = (case canvasHeightArg of None \<Rightarrow> 400 | Some h \<Rightarrow> h)"
    and fitW: "2 * radius object \<le> W" and fitH: "2 * radius object \<le> H"
    and x: "x = vec_x (position object)" and y: "y = vec_y (position object)"
    and r: "r = radius object"
  shows "applyBoundaries object canvasWidthArg canvasHeightArg =
           object\<lparr>position :=
                    \<lparr>vec_x = (if x - r < 0 then r else if x + r > W then W - r else x),
                     vec_y = (if y - r < 0 then r else if y + r > H then H - r else y)\<rparr>,
                  velocity :=
                    \<lparr>vec_x = (if x - r < 0 \<or> x + r > W then - 0.8 * vec_x (velocity object)
                              else vec_x (velocity object)),
                     vec_y = (if y - r < 0 \<or> y + r > H then - 0.8 * vec_y (velocity object)
                              else vec_y (velocity object))\<rparr>\<rparr> \<and>
         (0 \<le> x - r \<and> x + r \<le> W \<and> 0 \<le> y - r \<and> y + r \<le> H \<longrightarrow>
            applyBoundaries object canvasWidthArg canvasHeightArg = object)"
proof -
  have eqW: "(case canvasWidthArg of None \<Rightarrow> 800 | Some w \<Rightarrow> w) = W" by (simp add: W)
  have eqH: "(case canvasHeightArg of None \<Rightarrow> 400 | Some h \<Rightarrow> h) = H" by (simp add: H)
  show ?thesis
    unfolding applyBoundaries_def eqW eqH
    using fitW fitH
    by (auto simp: Let_def x y r)
qed

text \<open>The theorem at \<open>corner_ball\<close>, which crosses a limit on both axes.\<close>

theorem applyBoundaries_reflects_witness:
  "2 * radius corner_ball \<le> 800 \<and> 2 * radius corner_ball \<le> 400 \<and>
   applyBoundaries corner_ball None None =
     corner_ball\<lparr>position := \<lparr>vec_x = 790, vec_y = 10\<rparr>,
                 velocity := \<lparr>vec_x = - 8, vec_y = 4\<rparr>\<rparr>"
proof -
  have h: "2 * radius corner_ball \<le> 800" "2 * radius corner_ball \<le> 400"
    by (simp_all add: corner_ball_def createObject_def Let_def)
  from applyBoundaries_reflects [OF _ _ h refl refl refl, of None None] h
  show ?thesis by (simp add: corner_ball_def createObject_def Let_def)
qed

text \<open>
  Against C9 as stated (for every body): \<open>oversized_ball\<close> crosses the left
  limit, the clamp to one radius from it makes the body cross the right limit,
  and the second reflection leaves the x velocity at 0.64 times its previous
  value, 32/5, not -0.8 times, and the body at x = 300, not at one radius from
  the left wall.
\<close>

theorem applyBoundaries_oversized_counterexample:
  "vec_x (position oversized_ball) - radius oversized_ball < 0 \<and>
   vec_x (velocity oversized_ball) = 10 \<and> radius oversized_ball = 500 \<and>
   vec_x (velocity (applyBoundaries oversized_ball None None)) = 32 / 5 \<and>
   vec_x (velocity (applyBoundaries oversized_ball None None)) \<noteq>
     - 0.8 * vec_x (velocity oversized_ball) \<and>
   vec_x (position (applyBoundaries oversized_ball None None)) = 300"
  by (simp add: oversized_ball_def createObject_def applyBoundaries_def Let_def)

section \<open>Properties of \<open>createObject\<close>\<close>

text \<open>What \<open>createObject_store\<close> allocates, in closed form.\<close>

lemma createObject_store_shape:
  "createObject_store h ident positionArg velocityArg massArg radiusArg =
     (let h0 = (case velocityArg of None \<Rightarrow> h @ [\<lparr>vec_x = 0, vec_y = 0\<rparr>] | Some r \<Rightarrow> h);
          velocityR = (case velocityArg of None \<Rightarrow> length h | Some r \<Rightarrow> r)
      in (h0 @ [h0 ! positionArg, (h0 @ [h0 ! positionArg]) ! velocityR, \<lparr>vec_x = 0, vec_y = 0\<rparr>],
          \<lparr>ref_id = ident,
           position_ref = length h0,
           velocity_ref = Suc (length h0),
           acceleration_ref = Suc (Suc (length h0)),
           ref_mass = (case massArg of None \<Rightarrow> 1 | Some m \<Rightarrow> m),
           ref_radius = (case radiusArg of None \<Rightarrow> 10 | Some r \<Rightarrow> r),
           ref_color = ''#3b82f6'',
           ref_type = ''ball''\<rparr>))"
  by (cases velocityArg) (simp_all add: createObject_store_def alloc_def Let_def)

text \<open>
  C10. Called with references to vectors of the store (and with any id, mass
  and radius), \<open>createObject\<close> returns a body whose position, velocity and
  acceleration are three new, different cells, none of them a cell that
  existed before; the old cells keep their contents; the position and the
  velocity hold copies of the arguments' values and the acceleration is
  (0, 0); an omitted velocity, mass or radius is (0, 0), 1 or 10. Hence
  writing to any vector the caller holds does not change the body, and
  writing to a vector of the body changes no vector the caller holds. Read
  as a value, the body is the one the value-level \<open>createObject\<close> returns.
\<close>

theorem createObject_fresh_copies:
  assumes pos: "positionArg < length h"
    and vel: "\<And>r. velocityArg = Some r \<Longrightarrow> r < length h"
    and res: "createObject_store h ident positionArg velocityArg massArg radiusArg = (h', b)"
  shows "length h \<le> position_ref b \<and> position_ref b < velocity_ref b \<and>
         velocity_ref b < acceleration_ref b \<and> acceleration_ref b < length h' \<and>
         (\<forall>r < length h. h' ! r = h ! r) \<and>
         h' ! position_ref b = h ! positionArg \<and>
         h' ! velocity_ref b =
           (case velocityArg of None \<Rightarrow> \<lparr>vec_x = 0, vec_y = 0\<rparr> | Some r \<Rightarrow> h ! r) \<and>
         h' ! acceleration_ref b = \<lparr>vec_x = 0, vec_y = 0\<rparr> \<and>
         ref_mass b = (case massArg of None \<Rightarrow> 1 | Some m \<Rightarrow> m) \<and>
         ref_radius b = (case radiusArg of None \<Rightarrow> 10 | Some r \<Rightarrow> r) \<and>
         (\<forall>r < length h. \<forall>w. body_of (h'[r := w]) b = body_of h' b) \<and>
         (\<forall>c \<in> {position_ref b, velocity_ref b, acceleration_ref b}.
            \<forall>r < length h. \<forall>w. h'[c := w] ! r = h ! r) \<and>
         body_of h' b =
           snd (createObject eng ident (h ! positionArg)
                  (map_option (\<lambda>r. h ! r) velocityArg) massArg radiusArg)"
proof (cases velocityArg)
  case None
  from res have h': "h' = h @ [\<lparr>vec_x = 0, vec_y = 0\<rparr>] @ [h ! positionArg, \<lparr>vec_x = 0, vec_y = 0\<rparr>, \<lparr>vec_x = 0, vec_y = 0\<rparr>]"
    and b: "b = \<lparr>ref_id = ident, position_ref = Suc (length h), velocity_ref = Suc (Suc (length h)),
           acceleration_ref = Suc (Suc (Suc (length h))),
           ref_mass = (case massArg of None \<Rightarrow> 1 | Some m \<Rightarrow> m),
           ref_radius = (case radiusArg of None \<Rightarrow> 10 | Some r \<Rightarrow> r),
           ref_color = ''#3b82f6'', ref_type = ''ball''\<rparr>"
    using pos by (auto simp: createObject_store_shape None Let_def nth_append)
  show ?thesis
    using pos by (auto simp: h' b None body_of_def createObject_def Let_def nth_append nth_list_update nth_Cons')
next
  case (Some v)
  have v: "v < length h" using vel Some by simp
  from res have h': "h' = h @ [h ! positionArg, h ! v, \<lparr>vec_x = 0, vec_y = 0\<rparr>]"
    and b: "b = \<lparr>ref_id = ident, position_ref = length h, velocity_ref = Suc (length h),
           acceleration_ref = Suc (Suc (length h)),
           ref_mass = (case massArg of None \<Rightarrow> 1 | Some m \<Rightarrow> m),
           ref_radius = (case radiusArg of None \<Rightarrow> 10 | Some r \<Rightarrow> r),
           ref_color = ''#3b82f6'', ref_type = ''ball''\<rparr>"
    using pos v by (auto simp: createObject_store_shape Some Let_def nth_append)
  show ?thesis
    using pos v by (auto simp: h' b Some body_of_def createObject_def Let_def nth_append nth_list_update nth_Cons')
qed

text \<open>
  The theorem at \<open>caller_store\<close>, with mass and radius omitted: the caller then
  overwrites its position argument, and the body its own position.
\<close>

theorem createObject_fresh_copies_witness:
  "createObject_store caller_store ''object-a'' 0 (Some 1) None None =
     (caller_store @ [\<lparr>vec_x = 200, vec_y = 200\<rparr>, \<lparr>vec_x = 5, vec_y = 0\<rparr>, \<lparr>vec_x = 0, vec_y = 0\<rparr>],
      \<lparr>ref_id = ''object-a'', position_ref = 2, velocity_ref = 3, acceleration_ref = 4,
       ref_mass = 1, ref_radius = 10, ref_color = ''#3b82f6'', ref_type = ''ball''\<rparr>) \<and>
   (\<exists>h' b. createObject_store caller_store ''object-a'' 0 (Some 1) None None = (h', b) \<and>
      body_of (h'[0 := \<lparr>vec_x = 7, vec_y = 7\<rparr>]) b = body_of h' b \<and>
      h'[position_ref b := \<lparr>vec_x = 7, vec_y = 7\<rparr>] ! 0 = caller_store ! 0)"
proof -
  have res: "createObject_store caller_store ''object-a'' 0 (Some 1) None None =
     (caller_store @ [\<lparr>vec_x = 200, vec_y = 200\<rparr>, \<lparr>vec_x = 5, vec_y = 0\<rparr>, \<lparr>vec_x = 0, vec_y = 0\<rparr>],
      \<lparr>ref_id = ''object-a'', position_ref = 2, velocity_ref = 3, acceleration_ref = 4,
       ref_mass = 1, ref_radius = 10, ref_color = ''#3b82f6'', ref_type = ''ball''\<rparr>)"
    by (simp add: createObject_store_def alloc_def caller_store_def Let_def)
  have pos: "0 < length caller_store" by (simp add: caller_store_def)
  have vel: "\<And>r. Some (1::nat) = Some r \<Longrightarrow> r < length caller_store"
    by (simp add: caller_store_def)
  from createObject_fresh_copies [OF pos vel res, of new_PhysicsEngine] pos res
  show ?thesis by simp
qed

end
